theory Spec2Isabelle
  imports Main
begin

text \<open>
  A model of the Python SDK in \<open>packages/python-sdk/baleyui\<close>: the errors of
  \<open>errors.py\<close>, the entities and the handle of \<open>types.py\<close>, and the client of
  \<open>client.py\<close> with its transport adapter, its poll loop and its two event streams.
  A call of the client is a function of the world it runs in and returns its result, a
  value or the exception raised, together with the world it leaves. Strings are lists of
  8-bit characters. Leading underscores of Python names are dropped.
\<close>

section \<open>Values decoded from JSON\<close>

text \<open>
  The client handles decoded JSON as ordinary Python values: \<open>None\<close>, booleans, integers,
  floats, strings, lists and dictionaries with string keys. A dictionary is kept as an
  association list in which the first binding of a key is the one the dictionary holds.
  A float is never inspected by the client, so only its literal is kept.
\<close>

datatype json =
    JNull
  | JBool bool
  | JNum int
  | JFloat string
  | JStr string
  | JArr "json list"
  | JObj "(string \<times> json) list"

section \<open>Exceptions\<close>

text \<open>
  \<open>errors.py\<close>: one constructor for each class of the taxonomy, with the arguments
  of its \<open>__init__\<close>. The attributes that \<open>BaleyUIError.__init__\<close> stores are
  functions of the value, computed as each subclass passes them to \<open>super().__init__\<close>.
  A message is whatever value the caller passes: \<open>_handle_response\<close> passes the decoded
  \<open>error\<close> member of the body, which need not be a string.
\<close>

datatype error =
    BaleyUIError json "int option" "string option" json
  | AuthenticationError json
  | PermissionError json
  | NotFoundError string string
  | ValidationError json json
  | RateLimitError "int option"
  | TimeoutError int
  | ConnectionError string

text \<open>Decimal text of an integer, as an f-string prints it.\<close>

fun digit_char :: "nat \<Rightarrow> char" where
  "digit_char n = char_of (48 + n)"

function str_nat :: "nat \<Rightarrow> string" where
  "str_nat n = (if n < 10 then [digit_char n] else str_nat (n div 10) @ [digit_char (n mod 10)])"
  by pat_completeness auto
termination
  by (relation "measure id") auto

definition str_int :: "int \<Rightarrow> string" where
  "str_int i = (if i < 0 then CHR ''-'' # str_nat (nat (- i)) else str_nat (nat i))"

fun message :: "error \<Rightarrow> json" where
  "message (BaleyUIError m sc c d) = m"
| "message (AuthenticationError m) = m"
| "message (PermissionError m) = m"
| "message (NotFoundError resource resource_id) = JStr (resource @ '' not found: '' @ resource_id)"
| "message (ValidationError m d) = m"
| "message (RateLimitError ra) = JStr ''Rate limit exceeded''"
| "message (TimeoutError t) = JStr (''Execution timed out after '' @ str_int t @ ''ms'')"
| "message (ConnectionError m) = JStr m"

fun status_code :: "error \<Rightarrow> int option" where
  "status_code (BaleyUIError m sc c d) = sc"
| "status_code (AuthenticationError m) = Some 401"
| "status_code (PermissionError m) = Some 403"
| "status_code (NotFoundError resource resource_id) = Some 404"
| "status_code (ValidationError m d) = Some 400"
| "status_code (RateLimitError ra) = Some 429"
| "status_code (TimeoutError t) = None"
| "status_code (ConnectionError m) = None"

fun code :: "error \<Rightarrow> string option" where
  "code (BaleyUIError m sc c d) = c"
| "code (AuthenticationError m) = Some ''authentication_error''"
| "code (PermissionError m) = Some ''permission_error''"
| "code (NotFoundError resource resource_id) = Some ''not_found''"
| "code (ValidationError m d) = Some ''validation_error''"
| "code (RateLimitError ra) = Some ''rate_limit_error''"
| "code (TimeoutError t) = Some ''timeout_error''"
| "code (ConnectionError m) = Some ''connection_error''"

fun details :: "error \<Rightarrow> json" where
  "details (BaleyUIError m sc c d) = d"
| "details (ValidationError m d) = d"
| "details e = JNull"

text \<open>
  The exceptions of \<open>httpx\<close> that a call of the transport can raise: the two classes
  \<open>_request\<close> names, and every other subclass of \<open>httpx.TransportError\<close> (a read or
  write error, a protocol error, ...), kept with its text.
\<close>

datatype httpx_error =
    ConnectError string
  | TimeoutException
  | OtherTransportError string

text \<open>
  What a call of the client can raise: an error of the taxonomy, or an exception of another
  library or of the interpreter that no handler of the client catches.
\<close>

datatype exn =
    Classified error
  | Httpx httpx_error
  | JSONDecodeError
  | UnicodeDecodeError
  | Pydantic_ValidationError
  | TypeError
  | KeyError
  | AttributeError
  | ValueError

section \<open>Entities\<close>

text \<open>\<open>types.py\<close>. A \<open>datetime\<close> is opaque to the client; its ISO text stands for it.\<close>

type_synonym datetime = string

datatype ExecutionStatus = PENDING | RUNNING | COMPLETED | FAILED | CANCELLED

fun status_value :: "ExecutionStatus \<Rightarrow> string" where
  "status_value PENDING = ''pending''"
| "status_value RUNNING = ''running''"
| "status_value COMPLETED = ''completed''"
| "status_value FAILED = ''failed''"
| "status_value CANCELLED = ''cancelled''"

record Execution =
  exec_id :: string
  flow_id :: "string option"
  block_id :: "string option"
  status :: ExecutionStatus
  exec_input :: json
  exec_output :: json
  error_text :: "string option"
  started_at :: "datetime option"
  completed_at :: "datetime option"
  duration :: "int option"
  created_at :: datetime

record ExecutionEvent =
  event_type :: string
  execution_id :: string
  node_id :: "string option"
  data :: json
  timestamp :: datetime
  index :: int

section \<open>Library functions taken as given\<close>

text \<open>
  The client calls \<open>json.loads\<close>, the validation that \<open>pydantic\<close> runs when a model
  class is instantiated, and \<open>str\<close> on a decoded value inside an f-string. They are
  parameters of the model:
  \<^item> \<open>json_loads\<close> is \<open>json.loads\<close>; \<open>None\<close> is \<open>json.JSONDecodeError\<close>;
  \<^item> \<open>validate_event\<close> and \<open>validate_execution\<close> are the field validation of
    \<open>ExecutionEvent\<close> and \<open>Execution\<close> on a dictionary that has every required key;
  \<^item> \<open>py_repr\<close> is \<open>str\<close> on a value that is not a string.
\<close>

record lib =
  json_loads :: "string \<Rightarrow> json option"
  validate_event :: "(string \<times> json) list \<Rightarrow> exn + ExecutionEvent"
  validate_execution :: "(string \<times> json) list \<Rightarrow> exn + Execution"
  py_repr :: "json \<Rightarrow> string"

definition has_key :: "(string \<times> json) list \<Rightarrow> string \<Rightarrow> bool" where
  "has_key kv k = (map_of kv k \<noteq> None)"

text \<open>
  \<open>ExecutionEvent(**event_data)\<close>: unpacking a value that is not a mapping is a
  \<open>TypeError\<close>; a mapping that lacks a required field (\<open>type\<close>, \<open>executionId\<close> or, by
  \<open>populate_by_name\<close>, \<open>execution_id\<close>, \<open>timestamp\<close>, \<open>index\<close>) fails validation; the
  validation of the values is the library's.
\<close>

definition new_ExecutionEvent :: "lib \<Rightarrow> json \<Rightarrow> exn + ExecutionEvent" where
  "new_ExecutionEvent l event_data =
     (case event_data of
        JObj kv \<Rightarrow>
          if has_key kv ''type'' \<and> (has_key kv ''executionId'' \<or> has_key kv ''execution_id'')
             \<and> has_key kv ''timestamp'' \<and> has_key kv ''index''
          then validate_event l kv
          else Inl Pydantic_ValidationError
      | _ \<Rightarrow> Inl TypeError)"

text \<open>\<open>Execution(**...)\<close>: required are \<open>id\<close>, \<open>status\<close> and \<open>createdAt\<close> (or \<open>created_at\<close>).\<close>

definition new_Execution :: "lib \<Rightarrow> json \<Rightarrow> exn + Execution" where
  "new_Execution l d =
     (case d of
        JObj kv \<Rightarrow>
          if has_key kv ''id'' \<and> has_key kv ''status''
             \<and> (has_key kv ''createdAt'' \<or> has_key kv ''created_at'')
          then validate_execution l kv
          else Inl Pydantic_ValidationError
      | _ \<Rightarrow> Inl TypeError)"

text \<open>\<open>f"{x}"\<close>: a string is inserted as it is, any other value through \<open>str\<close>.\<close>

definition fstr :: "lib \<Rightarrow> json \<Rightarrow> string" where
  "fstr l v = (case v of JStr s \<Rightarrow> s | _ \<Rightarrow> py_repr l v)"

text \<open>\<open>d.get(key, default)\<close>: only a dictionary has the method.\<close>

definition dict_get :: "json \<Rightarrow> string \<Rightarrow> json \<Rightarrow> exn + json" where
  "dict_get d k dflt =
     (case d of
        JObj kv \<Rightarrow> (case map_of kv k of None \<Rightarrow> Inr dflt | Some v \<Rightarrow> Inr v)
      | _ \<Rightarrow> Inl AttributeError)"


text \<open>\<open>d[key]\<close>: a missing key is a \<open>KeyError\<close>; no other decoded value takes a string subscript.\<close>

definition subscript :: "json \<Rightarrow> string \<Rightarrow> exn + json" where
  "subscript d k =
     (case d of
        JObj kv \<Rightarrow> (case map_of kv k of None \<Rightarrow> Inl KeyError | Some v \<Rightarrow> Inr v)
      | _ \<Rightarrow> Inl TypeError)"

text \<open>
  \<open>int(s)\<close> on a string: surrounding white space is dropped; an optional sign is followed
  by decimal digits, in which single underscores may separate digits; and there are at most
  4300 digits, the default of \<open>sys.get_int_max_str_digits()\<close>, which the client does not
  change. Anything else is a \<open>ValueError\<close>, here \<open>None\<close>. The white space that \<open>int\<close>
  drops is the ASCII white space (tab, line feed, vertical tab, form feed, carriage return,
  space) and, of the characters above 127, those that are Unicode white space (next line
  and no-break space); the separators 28 to 31 are not dropped.
\<close>

definition is_space :: "char \<Rightarrow> bool" where
  "is_space c = ((of_char c :: nat) \<in> set [9, 10, 11, 12, 13, 32, 133, 160])"

definition strip :: "string \<Rightarrow> string" where
  "strip s = rev (dropWhile is_space (rev (dropWhile is_space s)))"

definition is_digit :: "char \<Rightarrow> bool" where
  "is_digit c = (48 \<le> (of_char c :: nat) \<and> (of_char c :: nat) \<le> 57)"

definition digit_val :: "char \<Rightarrow> nat" where
  "digit_val c = of_char c - 48"

fun digits :: "nat \<Rightarrow> string \<Rightarrow> nat option" where
  "digits acc [] = Some acc"
| "digits acc [c] = (if is_digit c then Some (acc * 10 + digit_val c) else None)"
| "digits acc (c # d # cs) =
     (if is_digit c then
        (if d = CHR ''_'' then
           (case cs of
              [] \<Rightarrow> None
            | e # es \<Rightarrow> if is_digit e then digits (acc * 10 + digit_val c) cs else None)
         else digits (acc * 10 + digit_val c) (d # cs))
      else None)"

definition max_str_digits :: nat where
  "max_str_digits = 4300"

definition digits_within_limit :: "string \<Rightarrow> nat option" where
  "digits_within_limit cs =
     (if max_str_digits < length (filter is_digit cs) then None else digits 0 cs)"

definition py_int :: "string \<Rightarrow> int option" where
  "py_int s =
     (case strip s of
        [] \<Rightarrow> None
      | c # cs \<Rightarrow>
          if c = CHR ''-'' then
            (if cs = [] then None else map_option (\<lambda>n. - int n) (digits_within_limit cs))
          else if c = CHR ''+'' then
            (if cs = [] then None else map_option int (digits_within_limit cs))
          else map_option int (digits_within_limit (c # cs)))"

text \<open>\<open>a or b\<close> on an optional integer: \<open>None\<close> and \<open>0\<close> are false.\<close>

definition int_or :: "int option \<Rightarrow> int \<Rightarrow> int" where
  "int_or a b = (case a of None \<Rightarrow> b | Some x \<Rightarrow> if x = 0 then b else x)"

text \<open>\<open>input or {}\<close> on an optional dictionary: \<open>None\<close> and the empty dictionary are false.\<close>

definition dict_or_empty :: "(string \<times> json) list option \<Rightarrow> json" where
  "dict_or_empty a = (case a of None \<Rightarrow> JObj [] | Some kv \<Rightarrow> if kv = [] then JObj [] else JObj kv)"

section \<open>The transport and the world it acts on\<close>

text \<open>
  A response of \<open>httpx\<close>: the status line, the lookup \<open>headers.get\<close>, what
  \<open>json()\<close> does, and the lines that \<open>iter_lines()\<close> or \<open>aiter_lines()\<close> delivers before
  the connection closes. \<open>json()\<close> returns the decoded body or raises:
  \<open>json.JSONDecodeError\<close> when the body is text that is not JSON, and another exception,
  such as \<open>UnicodeDecodeError\<close>, when the body is not text in its encoding.
\<close>

record response =
  http_status :: int
  reason_phrase :: string
  headers :: "string \<Rightarrow> string option"
  json_body :: "exn + json"
  body_lines :: "string list"

definition is_success :: "response \<Rightarrow> bool" where
  "is_success r = (200 \<le> http_status r \<and> http_status r \<le> 299)"

text \<open>
  The effects of the client, in the order they happen: a request through the client's own
  \<open>httpx.Client\<close> (method, path below \<open>/api/v1\<close>, JSON body), the opening of a streaming
  request (URL, query parameters, headers; no timeout), and a call of \<open>time.sleep\<close>
  (in milliseconds).
\<close>

datatype effect =
    Request string string "json option"
  | Stream string "(string \<times> int) list" "(string \<times> string) list"
  | Sleep nat

text \<open>
  The world is the trace of effects so far and the clock \<open>time.time()\<close>, in milliseconds.
  The transport decides, from the world a call is made in, what the call returns or raises
  and how long it takes, and by how much a sleep overruns the time asked for.
\<close>

record world =
  trace :: "effect list"
  now :: nat

datatype transport_result = Response response | Raises httpx_error

record transport =
  send :: "world \<Rightarrow> effect \<Rightarrow> transport_result"
  took :: "world \<Rightarrow> effect \<Rightarrow> nat"
  overrun :: "world \<Rightarrow> nat"

definition perform :: "transport \<Rightarrow> effect \<Rightarrow> world \<Rightarrow> transport_result \<times> world" where
  "perform t c w = (send t w c, w\<lparr>trace := trace w @ [c], now := now w + took t w c\<rparr>)"

definition sleep :: "transport \<Rightarrow> nat \<Rightarrow> world \<Rightarrow> world" where
  "sleep t ms w = w\<lparr>trace := trace w @ [Sleep ms], now := now w + ms + overrun t w\<rparr>"

section \<open>The client\<close>

text \<open>
  \<open>client.py\<close>, class \<open>BaleyUI\<close>. The request timeout is a float of seconds; the only
  use the client makes of it is \<open>int(self._timeout * 1000)\<close>, and the field
  \<open>timeout_ms\<close> is that integer.
\<close>

record client =
  api_key :: string
  base_url :: string
  timeout_ms :: int
  max_retries :: int

definition rstrip_slash :: "string \<Rightarrow> string" where
  "rstrip_slash s = rev (dropWhile (\<lambda>c. c = CHR ''/'') (rev s))"

definition new_BaleyUI :: "string \<Rightarrow> string \<Rightarrow> int \<Rightarrow> int \<Rightarrow> exn + client" where
  "new_BaleyUI key url tmo retries =
     (if key = [] then Inl (Classified (AuthenticationError (JStr ''API key is required'')))
      else Inr \<lparr>api_key = key, base_url = rstrip_slash url, timeout_ms = tmo, max_retries = retries\<rparr>)"

text \<open>
  \<open>BaleyUI._handle_response\<close>. On a failure the handler \<open>except json.JSONDecodeError\<close>
  replaces a body that is not JSON by the empty dictionary; any other exception of
  \<open>json()\<close> leaves the function.
\<close>

definition handle_response :: "response \<Rightarrow> exn + json" where
  "handle_response r =
     (if is_success r then
        (case json_body r of Inl e \<Rightarrow> Inl e | Inr body \<Rightarrow> Inr body)
      else
        (case (case json_body r of
                 Inl e \<Rightarrow> if e = JSONDecodeError then Inr (JObj []) else Inl e
               | Inr body \<Rightarrow> Inr body) of
           Inl e \<Rightarrow> Inl e
         | Inr error_data \<Rightarrow>
            (case dict_get error_data ''error'' (JStr (reason_phrase r)) of
               Inl e \<Rightarrow> Inl e
             | Inr msg \<Rightarrow>
                 (case dict_get error_data ''details'' JNull of
                    Inl e \<Rightarrow> Inl e
                  | Inr dets \<Rightarrow>
                      if http_status r = 401 then Inl (Classified (AuthenticationError msg))
                      else if http_status r = 403 then Inl (Classified (PermissionError msg))
                      else if http_status r = 404 then
                        Inl (Classified (NotFoundError ''Resource'' ''unknown''))
                      else if http_status r = 400 then Inl (Classified (ValidationError msg dets))
                      else if http_status r = 429 then
                        (case headers r ''Retry-After'' of
                           None \<Rightarrow> Inl (Classified (RateLimitError None))
                         | Some retry_after \<Rightarrow>
                             if retry_after = [] then Inl (Classified (RateLimitError None))
                             else (case py_int retry_after of
                                     None \<Rightarrow> Inl ValueError
                                   | Some n \<Rightarrow> Inl (Classified (RateLimitError (Some n)))))
                      else Inl (Classified
                                  (BaleyUIError msg (Some (http_status r)) (Some ''api_error'')
                                     dets))))))"

text \<open>
  \<open>BaleyUI._request\<close>: the two handlers turn a connect error and a timeout of the
  transport into errors of the taxonomy; any other exception passes through.
\<close>

definition request ::
  "transport \<Rightarrow> client \<Rightarrow> string \<Rightarrow> string \<Rightarrow> json option \<Rightarrow> world \<Rightarrow> (exn + json) \<times> world" where
  "request t c method path json_data w =
     (case perform t (Request method path json_data) w of
        (Response r, w') \<Rightarrow> (handle_response r, w')
      | (Raises (ConnectError e), w') \<Rightarrow> (Inl (Classified (ConnectionError e)), w')
      | (Raises TimeoutException, w') \<Rightarrow> (Inl (Classified (TimeoutError (timeout_ms c))), w')
      | (Raises (OtherTransportError e), w') \<Rightarrow> (Inl (Httpx (OtherTransportError e)), w'))"

section \<open>Executions: status, polling\<close>

text \<open>\<open>ExecutionsAPI.get\<close>.\<close>

definition get ::
  "lib \<Rightarrow> transport \<Rightarrow> client \<Rightarrow> json \<Rightarrow> world \<Rightarrow> (exn + Execution) \<times> world" where
  "get l t c eid w =
     (case request t c ''GET'' (''/executions/'' @ fstr l eid) None w of
        (Inl e, w') \<Rightarrow> (Inl e, w')
      | (Inr resp, w') \<Rightarrow>
          (case dict_get resp ''execution'' resp of
             Inl e \<Rightarrow> (Inl e, w')
           | Inr d \<Rightarrow> (new_Execution l d, w')))"

text \<open>
  \<open>ExecutionsAPI.wait_for_completion\<close>. The loop compares the time since \<open>start_time\<close>
  with the timeout, which is in seconds; a sleep lasts the poll interval of one second.
\<close>

definition is_terminal :: "Execution \<Rightarrow> bool" where
  "is_terminal ex = (status_value (status ex) \<in> set [''completed'', ''failed'', ''cancelled''])"

function wait_loop ::
  "lib \<Rightarrow> transport \<Rightarrow> client \<Rightarrow> json \<Rightarrow> int \<Rightarrow> nat \<Rightarrow> world \<Rightarrow> (exn + Execution) \<times> world" where
  "wait_loop l t c eid timeout start_time w =
     (if int (now w) - int start_time < timeout * 1000 then
        (case get l t c eid w of
           (Inl e, w') \<Rightarrow> (Inl e, w')
         | (Inr execution, w') \<Rightarrow>
             if is_terminal execution then (Inr execution, w')
             else wait_loop l t c eid timeout start_time (sleep t 1000 w'))
      else (Inl (Classified (TimeoutError (timeout * 1000))), w))"
  by pat_completeness auto
termination
  apply (relation "measure (\<lambda>(l, t, c, eid, timeout, start_time, w).
                   nat (timeout * 1000 - (int (now w) - int start_time)))")
   apply simp
  subgoal for l t c eid timeout start_time w x w' execution
    by (auto simp: sleep_def get_def request_def perform_def
             split: prod.splits sum.splits transport_result.splits httpx_error.splits)
  done

definition wait_for_completion ::
  "lib \<Rightarrow> transport \<Rightarrow> client \<Rightarrow> json \<Rightarrow> int \<Rightarrow> world \<Rightarrow> (exn + Execution) \<times> world" where
  "wait_for_completion l t c eid timeout w = wait_loop l t c eid timeout (now w) w"

section \<open>Executions: the event stream\<close>

text \<open>
  A generator is modelled by what a consumer that pulls until it stops observes: the events
  yielded, in order; how many lines were taken from the connection; and whether the
  iteration ended with \<open>StopIteration\<close> (\<open>None\<close>) or with an exception. The model
  covers connections that deliver finitely many lines and then close.
\<close>

record stream_run =
  yielded :: "ExecutionEvent list"
  lines_read :: nat
  raised :: "exn option"

definition next_line :: "stream_run \<Rightarrow> stream_run" where
  "next_line r = r\<lparr>lines_read := Suc (lines_read r)\<rparr>"

definition emit :: "ExecutionEvent \<Rightarrow> stream_run \<Rightarrow> stream_run" where
  "emit e r = r\<lparr>yielded := e # yielded r\<rparr>"

text \<open>
  The \<open>for\<close> loop of \<open>ExecutionsAPI.stream\<close>. The handler \<open>except json.JSONDecodeError\<close>
  covers the whole \<open>try\<close> block, so it also catches that exception out of the constructor.
\<close>

fun stream_loop :: "lib \<Rightarrow> string list \<Rightarrow> stream_run" where
  "stream_loop l [] = \<lparr>yielded = [], lines_read = 0, raised = None\<rparr>"
| "stream_loop l (line # rest) =
     (if take 6 line = ''data: '' then
        (let payload = drop 6 line in
         if payload = ''[DONE]'' then \<lparr>yielded = [], lines_read = 1, raised = None\<rparr>
         else
           (case json_loads l payload of
              None \<Rightarrow> next_line (stream_loop l rest)
            | Some event_data \<Rightarrow>
                (case new_ExecutionEvent l event_data of
                   Inl e \<Rightarrow>
                     if e = JSONDecodeError then next_line (stream_loop l rest)
                     else \<lparr>yielded = [], lines_read = 1, raised = Some e\<rparr>
                 | Inr event \<Rightarrow>
                     if event_type event \<in> set [''execution_complete'', ''execution_error'']
                     then \<lparr>yielded = [event], lines_read = 1, raised = None\<rparr>
                     else emit event (next_line (stream_loop l rest)))))
      else next_line (stream_loop l rest))"

text \<open>\<open>ExecutionsAPI.stream\<close>.\<close>

definition stream ::
  "lib \<Rightarrow> transport \<Rightarrow> client \<Rightarrow> json \<Rightarrow> int \<Rightarrow> world \<Rightarrow> stream_run \<times> world" where
  "stream l t c eid from_index w =
     (let url = base_url c @ ''/api/v1/executions/'' @ fstr l eid @ ''/stream'';
          params = [(''fromIndex'', from_index)];
          hdrs = [(''Authorization'', ''Bearer '' @ api_key c), (''Accept'', ''text/event-stream'')]
      in case perform t (Stream url params hdrs) w of
           (Raises e, w') \<Rightarrow> (\<lparr>yielded = [], lines_read = 0, raised = Some (Httpx e)\<rparr>, w')
         | (Response r, w') \<Rightarrow>
             if is_success r then (stream_loop l (body_lines r), w')
             else (\<lparr>yielded = [], lines_read = 0,
                    raised = Some (Classified (BaleyUIError
                      (JStr (''Failed to stream execution: '' @ reason_phrase r))
                      (Some (http_status r)) None JNull))\<rparr>, w'))"

text \<open>
  \<open>ExecutionsAPI.stream_async\<close>: the same request through an \<open>httpx.AsyncClient\<close>, and
  its own copy of the loop over \<open>aiter_lines()\<close>.
\<close>

fun stream_async_loop :: "lib \<Rightarrow> string list \<Rightarrow> stream_run" where
  "stream_async_loop l [] = \<lparr>yielded = [], lines_read = 0, raised = None\<rparr>"
| "stream_async_loop l (line # rest) =
     (if take 6 line = ''data: '' then
        (let payload = drop 6 line in
         if payload = ''[DONE]'' then \<lparr>yielded = [], lines_read = 1, raised = None\<rparr>
         else
           (case json_loads l payload of
              None \<Rightarrow> next_line (stream_async_loop l rest)
            | Some event_data \<Rightarrow>
                (case new_ExecutionEvent l event_data of
                   Inl e \<Rightarrow>
                     if e = JSONDecodeError then next_line (stream_async_loop l rest)
                     else \<lparr>yielded = [], lines_read = 1, raised = Some e\<rparr>
                 | Inr event \<Rightarrow>
                     if event_type event \<in> set [''execution_complete'', ''execution_error'']
                     then \<lparr>yielded = [event], lines_read = 1, raised = None\<rparr>
                     else emit event (next_line (stream_async_loop l rest)))))
      else next_line (stream_async_loop l rest))"

definition stream_async ::
  "lib \<Rightarrow> transport \<Rightarrow> client \<Rightarrow> json \<Rightarrow> int \<Rightarrow> world \<Rightarrow> stream_run \<times> world" where
  "stream_async l t c eid from_index w =
     (let url = base_url c @ ''/api/v1/executions/'' @ fstr l eid @ ''/stream'';
          params = [(''fromIndex'', from_index)];
          hdrs = [(''Authorization'', ''Bearer '' @ api_key c), (''Accept'', ''text/event-stream'')]
      in case perform t (Stream url params hdrs) w of
           (Raises e, w') \<Rightarrow> (\<lparr>yielded = [], lines_read = 0, raised = Some (Httpx e)\<rparr>, w')
         | (Response r, w') \<Rightarrow>
             if is_success r then (stream_async_loop l (body_lines r), w')
             else (\<lparr>yielded = [], lines_read = 0,
                    raised = Some (Classified (BaleyUIError
                      (JStr (''Failed to stream execution: '' @ reason_phrase r))
                      (Some (http_status r)) None JNull))\<rparr>, w'))"

section \<open>The handle, and starting an execution\<close>

text \<open>
  \<open>types.py\<close>, class \<open>ExecutionHandle\<close>: the id and three closures. A closure is a
  function of the world it is called in.
\<close>

record ExecutionHandle =
  handle_id :: json
  get_status_fn :: "world \<Rightarrow> (exn + Execution) \<times> world"
  wait_for_completion_fn :: "int option \<Rightarrow> world \<Rightarrow> (exn + Execution) \<times> world"
  stream_fn :: "world \<Rightarrow> stream_run \<times> world"

definition handle_get_status :: "ExecutionHandle \<Rightarrow> world \<Rightarrow> (exn + Execution) \<times> world" where
  "handle_get_status h = get_status_fn h"

definition handle_wait ::
  "ExecutionHandle \<Rightarrow> int option \<Rightarrow> world \<Rightarrow> (exn + Execution) \<times> world" where
  "handle_wait h timeout = wait_for_completion_fn h timeout"

definition handle_stream :: "ExecutionHandle \<Rightarrow> world \<Rightarrow> stream_run \<times> world" where
  "handle_stream h = stream_fn h"

text \<open>\<open>FlowsAPI.execute\<close>.\<close>

definition execute ::
  "lib \<Rightarrow> transport \<Rightarrow> client \<Rightarrow> string \<Rightarrow> (string \<times> json) list option \<Rightarrow> bool \<Rightarrow> int \<Rightarrow> world
     \<Rightarrow> (exn + ExecutionHandle) \<times> world" where
  "execute l t c fid inp wait wait_timeout w =
     (case request t c ''POST'' (''/flows/'' @ fid @ ''/execute'')
             (Some (JObj [(''input'', dict_or_empty inp)])) w of
        (Inl e, w1) \<Rightarrow> (Inl e, w1)
      | (Inr resp, w1) \<Rightarrow>
          (case subscript resp ''executionId'' of
             Inl e \<Rightarrow> (Inl e, w1)
           | Inr eid \<Rightarrow>
               (let handle = \<lparr>handle_id = eid,
                               get_status_fn = get l t c eid,
                               wait_for_completion_fn =
                                 (\<lambda>timeout. wait_for_completion l t c eid (int_or timeout wait_timeout)),
                               stream_fn = stream l t c eid 0\<rparr>
                in if wait then
                     (case handle_wait handle (Some wait_timeout) w1 of
                        (Inl e, w2) \<Rightarrow> (Inl e, w2)
                      | (Inr ex, w2) \<Rightarrow> (Inr handle, w2))
                   else (Inr handle, w1))))"

text \<open>\<open>BlocksAPI.run\<close>.\<close>

definition run ::
  "lib \<Rightarrow> transport \<Rightarrow> client \<Rightarrow> string \<Rightarrow> (string \<times> json) list option \<Rightarrow> bool \<Rightarrow> int \<Rightarrow> world
     \<Rightarrow> (exn + ExecutionHandle) \<times> world" where
  "run l t c bid inp wait wait_timeout w =
     (case request t c ''POST'' (''/blocks/'' @ bid @ ''/run'')
             (Some (JObj [(''input'', dict_or_empty inp)])) w of
        (Inl e, w1) \<Rightarrow> (Inl e, w1)
      | (Inr resp, w1) \<Rightarrow>
          (case subscript resp ''executionId'' of
             Inl e \<Rightarrow> (Inl e, w1)
           | Inr eid \<Rightarrow>
               (let handle = \<lparr>handle_id = eid,
                               get_status_fn = get l t c eid,
                               wait_for_completion_fn =
                                 (\<lambda>timeout. wait_for_completion l t c eid (int_or timeout wait_timeout)),
                               stream_fn = stream l t c eid 0\<rparr>
                in if wait then
                     (case handle_wait handle (Some wait_timeout) w1 of
                        (Inl e, w2) \<Rightarrow> (Inl e, w2)
                      | (Inr ex, w2) \<Rightarrow> (Inr handle, w2))
                   else (Inr handle, w1))))"

section \<open>Vocabulary of the properties\<close>

text \<open>
  The names the properties below are stated with. None of them is used by the model of
  the client.
\<close>

definition is_data_line :: "string \<Rightarrow> bool" where
  "is_data_line line = (take 6 line = ''data: '')"

definition is_terminal_event :: "ExecutionEvent \<Rightarrow> bool" where
  "is_terminal_event e = (event_type e \<in> set [''execution_complete'', ''execution_error''])"

text \<open>
  A line carries an event when it has the data prefix, its payload is not the sentinel, the
  payload decodes, and the decoded value validates to the event.
\<close>

definition carries :: "lib \<Rightarrow> string \<Rightarrow> ExecutionEvent \<Rightarrow> bool" where
  "carries l line e =
     (take 6 line = ''data: '' \<and> drop 6 line \<noteq> ''[DONE]'' \<and>
      (case json_loads l (drop 6 line) of
         None \<Rightarrow> False
       | Some j \<Rightarrow> new_ExecutionEvent l j = Inr e))"

text \<open>The request that \<open>stream\<close> and \<open>stream_async\<close> open.\<close>

definition stream_request :: "lib \<Rightarrow> client \<Rightarrow> json \<Rightarrow> int \<Rightarrow> effect" where
  "stream_request l c eid from_index =
     Stream (base_url c @ ''/api/v1/executions/'' @ fstr l eid @ ''/stream'')
            [(''fromIndex'', from_index)]
            [(''Authorization'', ''Bearer '' @ api_key c), (''Accept'', ''text/event-stream'')]"

text \<open>The request that \<open>ExecutionsAPI.get\<close> sends.\<close>

definition status_request :: "lib \<Rightarrow> json \<Rightarrow> effect" where
  "status_request l eid = Request ''GET'' (''/executions/'' @ fstr l eid) None"

text \<open>The requests that \<open>FlowsAPI.execute\<close> and \<open>BlocksAPI.run\<close> send.\<close>

definition execute_request :: "string \<Rightarrow> (string \<times> json) list option \<Rightarrow> effect" where
  "execute_request fid inp =
     Request ''POST'' (''/flows/'' @ fid @ ''/execute'') (Some (JObj [(''input'', dict_or_empty inp)]))"

definition run_request :: "string \<Rightarrow> (string \<times> json) list option \<Rightarrow> effect" where
  "run_request bid inp =
     Request ''POST'' (''/blocks/'' @ bid @ ''/run'') (Some (JObj [(''input'', dict_or_empty inp)]))"

text \<open>The handle that \<open>execute\<close> and \<open>run\<close> build for an execution id and a wait timeout.\<close>

definition new_handle :: "lib \<Rightarrow> transport \<Rightarrow> client \<Rightarrow> json \<Rightarrow> int \<Rightarrow> ExecutionHandle" where
  "new_handle l t c eid wait_timeout =
     \<lparr>handle_id = eid,
      get_status_fn = get l t c eid,
      wait_for_completion_fn =
        (\<lambda>timeout. wait_for_completion l t c eid (int_or timeout wait_timeout)),
      stream_fn = stream l t c eid 0\<rparr>"

text \<open>A call ends as the taxonomy promises: with a value, or with one error of the taxonomy.\<close>

definition classified_outcome :: "exn + 'a \<Rightarrow> bool" where
  "classified_outcome r = (case r of Inr v \<Rightarrow> True | Inl (Classified e) \<Rightarrow> True | Inl other \<Rightarrow> False)"

text \<open>
  The responses that \<open>_handle_response\<close> can read: the body of a success decodes; the
  body of a failure is text that is not JSON, or decodes to a dictionary; and the
  \<open>Retry-After\<close> header of a 429 is absent, empty or an integer that \<open>int\<close> accepts.
\<close>

definition retry_after_readable :: "response \<Rightarrow> bool" where
  "retry_after_readable r =
     (case headers r ''Retry-After'' of
        None \<Rightarrow> True
      | Some v \<Rightarrow> v = [] \<or> py_int v \<noteq> None)"

definition body_readable :: "response \<Rightarrow> bool" where
  "body_readable r =
     (case json_body r of
        Inl e \<Rightarrow> e = JSONDecodeError \<and> \<not> is_success r
      | Inr (JObj kv) \<Rightarrow> True
      | Inr other \<Rightarrow> is_success r)"

definition readable :: "response \<Rightarrow> bool" where
  "readable r = (body_readable r \<and> (http_status r \<noteq> 429 \<or> retry_after_readable r))"

text \<open>The outcomes of the transport that \<open>_request\<close> turns into a value or a classified error.\<close>

definition handled :: "transport_result \<Rightarrow> bool" where
  "handled res =
     (case res of
        Response r \<Rightarrow> readable r
      | Raises (ConnectError e) \<Rightarrow> True
      | Raises TimeoutException \<Rightarrow> True
      | Raises (OtherTransportError e) \<Rightarrow> False)"

text \<open>
  What the status table attaches: the \<open>error\<close> member of the body, or the reason phrase
  when the body has none; the \<open>details\<close> member, or \<open>None\<close>; the seconds of the
  \<open>Retry-After\<close> header, or \<open>None\<close>.
\<close>

definition server_message :: "response \<Rightarrow> json" where
  "server_message r =
     (case json_body r of
        Inr (JObj kv) \<Rightarrow> (case map_of kv ''error'' of None \<Rightarrow> JStr (reason_phrase r) | Some v \<Rightarrow> v)
      | _ \<Rightarrow> JStr (reason_phrase r))"

definition server_details :: "response \<Rightarrow> json" where
  "server_details r =
     (case json_body r of
        Inr (JObj kv) \<Rightarrow> (case map_of kv ''details'' of None \<Rightarrow> JNull | Some v \<Rightarrow> v)
      | _ \<Rightarrow> JNull)"

definition retry_after_seconds :: "response \<Rightarrow> int option" where
  "retry_after_seconds r =
     (case headers r ''Retry-After'' of
        None \<Rightarrow> None
      | Some v \<Rightarrow> if v = [] then None else py_int v)"

definition status_table :: "response \<Rightarrow> error" where
  "status_table r =
     (if http_status r = 401 then AuthenticationError (server_message r)
      else if http_status r = 403 then PermissionError (server_message r)
      else if http_status r = 404 then NotFoundError ''Resource'' ''unknown''
      else if http_status r = 400 then ValidationError (server_message r) (server_details r)
      else if http_status r = 429 then RateLimitError (retry_after_seconds r)
      else BaleyUIError (server_message r) (Some (http_status r)) (Some ''api_error'')
             (server_details r))"

section \<open>A sample library, client and servers\<close>

text \<open>
  Concrete values for running the model. \<open>sample_loads\<close> agrees with \<open>json.loads\<close> on the
  payloads used below; \<open>sample_validate_event\<close> and \<open>sample_validate_execution\<close> accept
  the fields in their declared types, without coercion.
\<close>

definition event_json :: "string \<Rightarrow> int \<Rightarrow> json" where
  "event_json ty i =
     JObj [(''type'', JStr ty), (''executionId'', JStr ''exec-2''),
           (''timestamp'', JStr ''2024-01-01T00:00:00Z''), (''index'', JNum i)]"

definition sample_event :: "string \<Rightarrow> int \<Rightarrow> ExecutionEvent" where
  "sample_event ty i =
     \<lparr>event_type = ty, execution_id = ''exec-2'', node_id = None, data = JNull,
      timestamp = ''2024-01-01T00:00:00Z'', index = i\<rparr>"

definition sample_loads :: "string \<Rightarrow> json option" where
  "sample_loads s =
     (if s = ''{\"type\":\"node_start\",\"executionId\":\"exec-2\",\"timestamp\":\"2024-01-01T00:00:00Z\",\"index\":0}''
      then Some (event_json ''node_start'' 0)
      else if s = ''{\"type\":\"node_complete\",\"executionId\":\"exec-2\",\"timestamp\":\"2024-01-01T00:00:00Z\",\"index\":1}''
      then Some (event_json ''node_complete'' 1)
      else if s = ''{\"type\":\"execution_complete\",\"executionId\":\"exec-2\",\"timestamp\":\"2024-01-01T00:00:00Z\",\"index\":2}''
      then Some (event_json ''execution_complete'' 2)
      else if s = ''{}'' then Some (JObj [])
      else None)"

definition sample_validate_event :: "(string \<times> json) list \<Rightarrow> exn + ExecutionEvent" where
  "sample_validate_event kv =
     (case (map_of kv ''type'', map_of kv ''executionId'', map_of kv ''timestamp'', map_of kv ''index'') of
        (Some (JStr ty), Some (JStr ex), Some (JStr ts), Some (JNum i)) \<Rightarrow>
          Inr \<lparr>event_type = ty, execution_id = ex,
               node_id = (case map_of kv ''nodeId'' of Some (JStr n) \<Rightarrow> Some n | _ \<Rightarrow> None),
               data = (case map_of kv ''data'' of Some d \<Rightarrow> d | None \<Rightarrow> JNull),
               timestamp = ts, index = i\<rparr>
      | _ \<Rightarrow> Inl Pydantic_ValidationError)"

definition status_of :: "string \<Rightarrow> ExecutionStatus option" where
  "status_of s =
     (if s = ''pending'' then Some PENDING else if s = ''running'' then Some RUNNING
      else if s = ''completed'' then Some COMPLETED else if s = ''failed'' then Some FAILED
      else if s = ''cancelled'' then Some CANCELLED else None)"

definition sample_validate_execution :: "(string \<times> json) list \<Rightarrow> exn + Execution" where
  "sample_validate_execution kv =
     (case (map_of kv ''id'', map_of kv ''status'', map_of kv ''createdAt'') of
        (Some (JStr i), Some (JStr s), Some (JStr ts)) \<Rightarrow>
          (case status_of s of
             None \<Rightarrow> Inl Pydantic_ValidationError
           | Some st \<Rightarrow>
               Inr \<lparr>exec_id = i, flow_id = None, block_id = None, status = st, exec_input = JNull,
                    exec_output = JNull, error_text = None, started_at = None,
                    completed_at = None, duration = None, created_at = ts\<rparr>)
      | _ \<Rightarrow> Inl Pydantic_ValidationError)"

definition sample_lib :: lib where
  "sample_lib = \<lparr>json_loads = sample_loads, validate_event = sample_validate_event,
                  validate_execution = sample_validate_execution, py_repr = (\<lambda>v. ''?'')\<rparr>"

definition sample_client :: client where
  "sample_client = \<lparr>api_key = ''bui_live_x'', base_url = ''https://app.baleyui.com'',
                     timeout_ms = 30000, max_retries = 3\<rparr>"

definition w0 :: world where
  "w0 = \<lparr>trace = [], now = 0\<rparr>"

definition ok_response :: "exn + json \<Rightarrow> string list \<Rightarrow> response" where
  "ok_response body ls =
     \<lparr>http_status = 200, reason_phrase = ''OK'', headers = (\<lambda>k. None),
      json_body = body, body_lines = ls\<rparr>"

text \<open>A server that answers every call at once with the given lines.\<close>

definition stream_server :: "string list \<Rightarrow> transport" where
  "stream_server ls =
     \<lparr>send = (\<lambda>w c. Response (ok_response (Inl JSONDecodeError) ls)), took = (\<lambda>w c. 0), overrun = (\<lambda>w. 0)\<rparr>"

definition line_start :: string where
  "line_start = ''data: {\"type\":\"node_start\",\"executionId\":\"exec-2\",\"timestamp\":\"2024-01-01T00:00:00Z\",\"index\":0}''"

definition line_node :: string where
  "line_node = ''data: {\"type\":\"node_complete\",\"executionId\":\"exec-2\",\"timestamp\":\"2024-01-01T00:00:00Z\",\"index\":1}''"

definition line_complete :: string where
  "line_complete = ''data: {\"type\":\"execution_complete\",\"executionId\":\"exec-2\",\"timestamp\":\"2024-01-01T00:00:00Z\",\"index\":2}''"

text \<open>
  A server of the API: a \<open>POST\<close> starts execution \<open>exec-1\<close>; a \<open>GET\<close> returns its
  snapshot, whose status is the given one. Every call takes the given time.
\<close>

definition snapshot_json :: "string \<Rightarrow> json" where
  "snapshot_json st =
     JObj [(''id'', JStr ''exec-1''), (''status'', JStr st),
           (''createdAt'', JStr ''2024-01-01T00:00:00Z'')]"

definition sample_execution :: "ExecutionStatus \<Rightarrow> Execution" where
  "sample_execution st =
     \<lparr>exec_id = ''exec-1'', flow_id = None, block_id = None, status = st, exec_input = JNull,
      exec_output = JNull, error_text = None, started_at = None, completed_at = None,
      duration = None, created_at = ''2024-01-01T00:00:00Z''\<rparr>"

definition api_server :: "nat \<Rightarrow> string \<Rightarrow> transport" where
  "api_server latency st =
     \<lparr>send = (\<lambda>w c. case c of
                 Request m p j \<Rightarrow>
                   if m = ''POST''
                   then Response (ok_response (Inr (JObj [(''executionId'', JStr ''exec-1'')])) [])
                   else Response (ok_response (Inr (snapshot_json st)) [])
               | Stream u ps hs \<Rightarrow> Response (ok_response (Inl JSONDecodeError) [])
               | Sleep ms \<Rightarrow> Raises (OtherTransportError ''not a request'')),
      took = (\<lambda>w c. latency), overrun = (\<lambda>w. 0)\<rparr>"

text \<open>A server on which every call fails while the response is read.\<close>

definition broken_server :: transport where
  "broken_server =
     \<lparr>send = (\<lambda>w c. Raises (OtherTransportError ''ReadError'')),
      took = (\<lambda>w c. 0), overrun = (\<lambda>w. 0)\<rparr>"

text \<open>A 429 whose \<open>Retry-After\<close> header is a date, as RFC 9110 allows.\<close>

definition dated_429 :: response where
  "dated_429 =
     \<lparr>http_status = 429, reason_phrase = ''Too Many Requests'',
      headers = (\<lambda>k. if k = ''Retry-After'' then Some ''Wed, 21 Oct 2015 07:28:00 GMT'' else None),
      json_body = Inr (JObj [(''error'', JStr ''Rate limit exceeded'')]), body_lines = []\<rparr>"

text \<open>A 429 whose \<open>Retry-After\<close> header is a number of seconds.\<close>

definition timed_429 :: response where
  "timed_429 =
     \<lparr>http_status = 429, reason_phrase = ''Too Many Requests'',
      headers = (\<lambda>k. if k = ''Retry-After'' then Some ''120'' else None),
      json_body = Inr (JObj [(''error'', JStr ''Rate limit exceeded'')]), body_lines = []\<rparr>"

text \<open>A server that answers every call at once with the given response.\<close>

definition fixed_server :: "response \<Rightarrow> transport" where
  "fixed_server r = \<lparr>send = (\<lambda>w c. Response r), took = (\<lambda>w c. 0), overrun = (\<lambda>w. 0)\<rparr>"

text \<open>A server that cannot be reached: every call fails to connect.\<close>

definition unreachable_server :: transport where
  "unreachable_server =
     \<lparr>send = (\<lambda>w c. Raises (ConnectError ''All connection attempts failed'')),
      took = (\<lambda>w c. 0), overrun = (\<lambda>w. 0)\<rparr>"

section \<open>The event stream: properties\<close>

subsection \<open>One line at a time\<close>

lemma stream_loop_emits:
  assumes "carries l line e" and "\<not> is_terminal_event e"
  shows "stream_loop l (line # rest) = emit e (next_line (stream_loop l rest))"
  using assms by (auto simp: carries_def is_terminal_event_def split: option.splits)

lemma stream_loop_stops:
  assumes "carries l line e" and "is_terminal_event e"
  shows "stream_loop l (line # rest) = \<lparr>yielded = [e], lines_read = 1, raised = None\<rparr>"
  using assms by (auto simp: carries_def is_terminal_event_def split: option.splits)

lemma stream_loop_ignores:
  assumes "\<not> is_data_line line"
  shows "stream_loop l (line # rest) = next_line (stream_loop l rest)"
  using assms by (simp add: is_data_line_def)

lemma stream_loop_sentinel:
  "stream_loop l (''data: [DONE]'' # rest) = \<lparr>yielded = [], lines_read = 1, raised = None\<rparr>"
  by simp

text \<open>A payload that is not JSON is passed over: this is the handler of the loop.\<close>

lemma stream_loop_skips_undecodable:
  assumes "is_data_line line" and "drop 6 line \<noteq> ''[DONE]''"
      and "json_loads l (drop 6 line) = None"
  shows "stream_loop l (line # rest) = next_line (stream_loop l rest)"
  using assms by (simp add: is_data_line_def)

text \<open>A payload that is JSON but not an event ends the iteration with the exception.\<close>

lemma stream_loop_raises:
  assumes "is_data_line line" and "drop 6 line \<noteq> ''[DONE]''"
      and "json_loads l (drop 6 line) = Some j"
      and "new_ExecutionEvent l j = Inl e" and "e \<noteq> JSONDecodeError"
  shows "stream_loop l (line # rest) = \<lparr>yielded = [], lines_read = 1, raised = Some e\<rparr>"
  using assms by (simp add: is_data_line_def)

subsection \<open>A prefix of well-formed lines\<close>

text \<open>
  When the data lines of a prefix carry the events \<open>es\<close>, none of them terminal, the loop
  yields \<open>es\<close>, reads the whole prefix and goes on with the rest.
\<close>

lemma stream_loop_prefix:
  assumes "list_all2 (carries l) (filter is_data_line pre) es"
      and "\<forall>e\<in>set es. \<not> is_terminal_event e"
  shows "stream_loop l (pre @ rest) =
           \<lparr>yielded = es @ yielded (stream_loop l rest),
            lines_read = length pre + lines_read (stream_loop l rest),
            raised = raised (stream_loop l rest)\<rparr>"
  using assms
proof (induction pre arbitrary: es)
  case Nil
  then show ?case by simp
next
  case (Cons line pre)
  show ?case
  proof (cases "is_data_line line")
    case False
    with Cons.prems have "list_all2 (carries l) (filter is_data_line pre) es" by simp
    from Cons.IH [OF this Cons.prems(2)] False show ?thesis
      by (simp add: stream_loop_ignores next_line_def del: stream_loop.simps)
  next
    case True
    with Cons.prems(1) obtain e es' where es: "es = e # es'" and c: "carries l line e"
      and rest: "list_all2 (carries l) (filter is_data_line pre) es'"
      by (auto simp: list_all2_Cons1)
    from Cons.prems(2) es have nt: "\<not> is_terminal_event e"
      and nts: "\<forall>e\<in>set es'. \<not> is_terminal_event e"
      by simp_all
    from Cons.IH [OF rest nts] show ?thesis
      by (simp add: stream_loop_emits [OF c nt] es emit_def next_line_def del: stream_loop.simps)
  qed
qed

lemma stream_opened:
  assumes "send t w (stream_request l c eid from_index) = Response r" and "is_success r"
  shows "fst (stream l t c eid from_index w) = stream_loop l (body_lines r)"
  using assms by (simp add: stream_def stream_request_def perform_def Let_def)

lemma stream_trace:
  "trace (snd (stream l t c eid from_index w)) = trace w @ [stream_request l c eid from_index]"
  by (simp add: stream_def stream_request_def perform_def Let_def split: transport_result.splits)

lemma stream_async_loop_eq: "stream_async_loop l ls = stream_loop l ls"
  by (induction ls) (simp_all add: Let_def split: option.splits sum.splits)

subsection \<open>The sample lines\<close>

lemma carries_start: "carries sample_lib line_start (sample_event ''node_start'' 0)"
  by (simp add: carries_def line_start_def sample_lib_def sample_loads_def event_json_def
        new_ExecutionEvent_def has_key_def sample_validate_event_def sample_event_def)

lemma carries_node: "carries sample_lib line_node (sample_event ''node_complete'' 1)"
  by (simp add: carries_def line_node_def sample_lib_def sample_loads_def event_json_def
        new_ExecutionEvent_def has_key_def sample_validate_event_def sample_event_def)

lemma carries_complete: "carries sample_lib line_complete (sample_event ''execution_complete'' 2)"
  by (simp add: carries_def line_complete_def sample_lib_def sample_loads_def event_json_def
        new_ExecutionEvent_def has_key_def sample_validate_event_def sample_event_def)

lemma data_lines:
  "is_data_line line_start" "is_data_line line_node" "is_data_line line_complete"
  "\<not> is_data_line []" "is_data_line ''data: [DONE]''" "is_data_line ''data: {}''"
  by (simp_all add: is_data_line_def line_start_def line_node_def line_complete_def)

lemma sample_events_not_terminal:
  "\<forall>e\<in>set [sample_event ''node_start'' 0, sample_event ''node_complete'' 1].
     \<not> is_terminal_event e"
  by (simp add: is_terminal_event_def sample_event_def)

lemma stream_server_sends:
  "send (stream_server ls) w c = Response (ok_response (Inl JSONDecodeError) ls)"
  by (simp add: stream_server_def)

lemma ok_response_simps:
  "is_success (ok_response b ls)" "body_lines (ok_response b ls) = ls"
  "json_body (ok_response b ls) = b"
  by (simp_all add: ok_response_def is_success_def)

subsection \<open>Termination on a completion or error event\<close>

text \<open>
  Claim C1. The server answers the stream request with success. The lines before the
  line \<open>final\<close> are well formed: those with the data prefix carry the events \<open>es\<close>, in
  order, none of them of a terminal type; other lines may stand between them. The line
  \<open>final\<close> carries an event \<open>ev\<close> of type \<open>execution_complete\<close> or \<open>execution_error\<close>. Then
  the stream yields exactly \<open>es\<close> followed by \<open>ev\<close> and ends without an exception, and of
  the lines \<open>rest\<close> that follow on the connection none is read.
\<close>

theorem stream_ends_on_terminal_event:
  assumes "send t w (stream_request l c eid from_index) = Response r"
      and "is_success r"
      and "body_lines r = pre @ final # rest"
      and "list_all2 (carries l) (filter is_data_line pre) es"
      and "\<forall>e\<in>set es. \<not> is_terminal_event e"
      and "carries l final ev"
      and "is_terminal_event ev"
  shows "fst (stream l t c eid from_index w) =
           \<lparr>yielded = es @ [ev], lines_read = length pre + 1, raised = None\<rparr>"
proof -
  have "stream_loop l (final # rest) = \<lparr>yielded = [ev], lines_read = 1, raised = None\<rparr>"
    using assms(6,7) by (rule stream_loop_stops)
  with stream_loop_prefix [OF assms(4,5), of "final # rest"] assms(3)
  have "stream_loop l (body_lines r) =
          \<lparr>yielded = es @ [ev], lines_read = length pre + 1, raised = None\<rparr>"
    by simp
  with stream_opened [OF assms(1,2)] show ?thesis by simp
qed

text \<open>
  The scenario of the specification, with the blank lines of an event stream between the
  events and two more lines after the completion event.
\<close>

theorem stream_ends_on_terminal_event_witness:
  "fst (stream sample_lib
          (stream_server [line_start, [], line_node, [], line_complete, [], line_node])
          sample_client (JStr ''exec-2'') 0 w0) =
     \<lparr>yielded = [sample_event ''node_start'' 0, sample_event ''node_complete'' 1,
                 sample_event ''execution_complete'' 2],
      lines_read = 5, raised = None\<rparr>"
proof -
  let ?ls = "[line_start, [], line_node, [], line_complete, [], line_node]"
  have 1: "send (stream_server ?ls) w0 (stream_request sample_lib sample_client (JStr ''exec-2'') 0)
             = Response (ok_response (Inl JSONDecodeError) ?ls)"
    by (rule stream_server_sends)
  have 2: "is_success (ok_response (Inl JSONDecodeError) ?ls)" by (rule ok_response_simps)
  have 3: "body_lines (ok_response (Inl JSONDecodeError) ?ls)
             = [line_start, [], line_node, []] @ line_complete # [ [], line_node]"
    by (simp add: ok_response_simps)
  have 4: "list_all2 (carries sample_lib) (filter is_data_line [line_start, [], line_node, []])
             [sample_event ''node_start'' 0, sample_event ''node_complete'' 1]"
    by (simp add: data_lines carries_start carries_node)
  have 6: "is_terminal_event (sample_event ''execution_complete'' 2)"
    by (simp add: is_terminal_event_def sample_event_def)
  show ?thesis
    using stream_ends_on_terminal_event [OF 1 2 3 4 sample_events_not_terminal carries_complete 6]
    by simp
qed

subsection \<open>A payload that is not an event\<close>

text \<open>
  Claim C2. The claim is that a data line whose payload does not decode into an event is
  passed over. The loop catches \<open>json.JSONDecodeError\<close> only. The payload \<open>{}\<close> is JSON,
  so \<open>json.loads\<close> returns the empty dictionary; the constructor of \<open>ExecutionEvent\<close> then
  fails for the missing fields, and that exception leaves the generator: after the events
  \<open>es\<close> of the lines before it, the consumer gets the exception, and the valid events in
  the lines \<open>rest\<close> are never yielded.
\<close>

theorem stream_raises_on_misshapen_event:
  assumes "send t w (stream_request l c eid from_index) = Response r"
      and "is_success r"
      and "body_lines r = pre @ ''data: {}'' # rest"
      and "list_all2 (carries l) (filter is_data_line pre) es"
      and "\<forall>e\<in>set es. \<not> is_terminal_event e"
      and "json_loads l ''{}'' = Some (JObj [])"
  shows "fst (stream l t c eid from_index w) =
           \<lparr>yielded = es, lines_read = length pre + 1, raised = Some Pydantic_ValidationError\<rparr>"
proof -
  have "new_ExecutionEvent l (JObj []) = Inl Pydantic_ValidationError"
    by (simp add: new_ExecutionEvent_def has_key_def)
  with assms(6)
  have "stream_loop l (''data: {}'' # rest) =
          \<lparr>yielded = [], lines_read = 1, raised = Some Pydantic_ValidationError\<rparr>"
    by simp
  with stream_loop_prefix [OF assms(4,5), of "''data: {}'' # rest"] assms(3)
  have "stream_loop l (body_lines r) =
          \<lparr>yielded = es, lines_read = length pre + 1, raised = Some Pydantic_ValidationError\<rparr>"
    by simp
  with stream_opened [OF assms(1,2)] show ?thesis by simp
qed

theorem stream_raises_on_misshapen_event_witness:
  "fst (stream sample_lib
          (stream_server [line_start, [], line_node, [], ''data: {}'', [], line_complete])
          sample_client (JStr ''exec-2'') 0 w0) =
     \<lparr>yielded = [sample_event ''node_start'' 0, sample_event ''node_complete'' 1],
      lines_read = 5, raised = Some Pydantic_ValidationError\<rparr>"
proof -
  let ?ls = "[line_start, [], line_node, [], ''data: {}'', [], line_complete]"
  have 1: "send (stream_server ?ls) w0 (stream_request sample_lib sample_client (JStr ''exec-2'') 0)
             = Response (ok_response (Inl JSONDecodeError) ?ls)"
    by (rule stream_server_sends)
  have 2: "is_success (ok_response (Inl JSONDecodeError) ?ls)" by (rule ok_response_simps)
  have 3: "body_lines (ok_response (Inl JSONDecodeError) ?ls)
             = [line_start, [], line_node, []] @ ''data: {}'' # [ [], line_complete]"
    by (simp add: ok_response_simps)
  have 4: "list_all2 (carries sample_lib) (filter is_data_line [line_start, [], line_node, []])
             [sample_event ''node_start'' 0, sample_event ''node_complete'' 1]"
    by (simp add: data_lines carries_start carries_node)
  have 6: "json_loads sample_lib ''{}'' = Some (JObj [])"
    by (simp add: sample_lib_def sample_loads_def)
  show ?thesis
    using stream_raises_on_misshapen_event [OF 1 2 3 4 sample_events_not_terminal 6]
    by simp
qed

text \<open>
  What the handler does give: a data line whose payload is not JSON at all is passed over,
  and the stream goes on with the lines after it.
\<close>

lemma stream_passes_over_invalid_json:
  assumes "list_all2 (carries l) (filter is_data_line pre) es"
      and "\<forall>e\<in>set es. \<not> is_terminal_event e"
      and "is_data_line bad" and "drop 6 bad \<noteq> ''[DONE]''"
      and "json_loads l (drop 6 bad) = None"
  shows "stream_loop l (pre @ bad # rest) =
           \<lparr>yielded = es @ yielded (stream_loop l rest),
            lines_read = length pre + 1 + lines_read (stream_loop l rest),
            raised = raised (stream_loop l rest)\<rparr>"
  using stream_loop_prefix [OF assms(1,2), of "bad # rest"]
    stream_loop_skips_undecodable [OF assms(3,4,5), of rest]
  by (simp add: next_line_def)

subsection \<open>The two variants\<close>

text \<open>
  Claim C3. On every library, transport, client, execution id, start index and world, the
  blocking variant and the suspending variant yield the same events, read the same number
  of lines, end the same way and leave the same trace.
\<close>

theorem stream_async_eq_stream:
  "stream_async l t c eid from_index w = stream l t c eid from_index w"
  unfolding stream_async_def stream_def stream_async_loop_eq by (rule refl)

subsection \<open>Termination on the sentinel\<close>

text \<open>
  Claim C6. The lines before the sentinel line are well formed, and their data lines carry
  the events \<open>es\<close>, none of a terminal type. Then the stream yields exactly \<open>es\<close>, nothing
  for the sentinel line, and ends without an exception; no line after the sentinel is read.
\<close>

theorem stream_ends_on_sentinel:
  assumes "send t w (stream_request l c eid from_index) = Response r"
      and "is_success r"
      and "body_lines r = pre @ ''data: [DONE]'' # rest"
      and "list_all2 (carries l) (filter is_data_line pre) es"
      and "\<forall>e\<in>set es. \<not> is_terminal_event e"
  shows "fst (stream l t c eid from_index w) =
           \<lparr>yielded = es, lines_read = length pre + 1, raised = None\<rparr>"
proof -
  from stream_loop_prefix [OF assms(4,5), of "''data: [DONE]'' # rest"] assms(3)
  have "stream_loop l (body_lines r) =
          \<lparr>yielded = es, lines_read = length pre + 1, raised = None\<rparr>"
    by (simp add: stream_loop_sentinel del: stream_loop.simps)
  with stream_opened [OF assms(1,2)] show ?thesis by simp
qed

theorem stream_ends_on_sentinel_witness:
  "fst (stream sample_lib
          (stream_server [line_start, [], line_node, [], ''data: [DONE]''])
          sample_client (JStr ''exec-2'') 0 w0) =
     \<lparr>yielded = [sample_event ''node_start'' 0, sample_event ''node_complete'' 1],
      lines_read = 5, raised = None\<rparr>"
proof -
  let ?ls = "[line_start, [], line_node, [], ''data: [DONE]'']"
  have 1: "send (stream_server ?ls) w0 (stream_request sample_lib sample_client (JStr ''exec-2'') 0)
             = Response (ok_response (Inl JSONDecodeError) ?ls)"
    by (rule stream_server_sends)
  have 2: "is_success (ok_response (Inl JSONDecodeError) ?ls)" by (rule ok_response_simps)
  have 3: "body_lines (ok_response (Inl JSONDecodeError) ?ls)
             = [line_start, [], line_node, []] @ ''data: [DONE]'' # []"
    by (simp add: ok_response_simps)
  have 4: "list_all2 (carries sample_lib) (filter is_data_line [line_start, [], line_node, []])
             [sample_event ''node_start'' 0, sample_event ''node_complete'' 1]"
    by (simp add: data_lines carries_start carries_node)
  show ?thesis
    using stream_ends_on_sentinel [OF 1 2 3 4 sample_events_not_terminal]
    by simp
qed

section \<open>The transport adapter: properties\<close>

subsection \<open>The status table\<close>

text \<open>
  On a failure that it can read, \<open>_handle_response\<close> raises the error of its status
  table. For a 404 that is \<open>NotFoundError\<close> with the fixed kind \<open>Resource\<close> and the fixed
  id \<open>unknown\<close>, whatever was asked for.
\<close>

lemma handle_response_table:
  assumes "\<not> is_success r" and "readable r"
  shows "handle_response r = Inl (Classified (status_table r))"
proof (cases "json_body r")
  case (Inl e)
  with assms have "e = JSONDecodeError" by (simp add: readable_def body_readable_def)
  with Inl assms show ?thesis
    by (auto simp: handle_response_def status_table_def dict_get_def server_message_def
          server_details_def retry_after_seconds_def readable_def retry_after_readable_def
          split: option.splits)
next
  case (Inr body)
  with assms obtain kv where "body = JObj kv"
    by (cases body) (auto simp: readable_def body_readable_def)
  with Inr assms show ?thesis
    by (auto simp: handle_response_def status_table_def dict_get_def server_message_def
          server_details_def retry_after_seconds_def readable_def retry_after_readable_def
          split: option.splits)
qed

lemma handle_response_success:
  assumes "is_success r" and "json_body r = Inr body"
  shows "handle_response r = Inr body"
  using assms by (simp add: handle_response_def)

lemma handle_response_classified:
  assumes "readable r"
  shows "classified_outcome (handle_response r)"
proof (cases "is_success r")
  case True
  with assms obtain body where "json_body r = Inr body"
    by (cases "json_body r") (auto simp: readable_def body_readable_def)
  with True show ?thesis
    by (simp add: handle_response_success classified_outcome_def)
next
  case False
  with assms show ?thesis
    by (simp add: handle_response_table classified_outcome_def)
qed

text \<open>
  A body for which \<open>json()\<close> raises anything but \<open>json.JSONDecodeError\<close> is not read:
  the exception leaves \<open>_handle_response\<close>, on a success and on a failure alike.
\<close>

lemma handle_response_undecodable:
  assumes "json_body r = Inl e" and "e \<noteq> JSONDecodeError"
  shows "handle_response r = Inl e"
  using assms by (simp add: handle_response_def)

lemma py_int_date: "py_int ''Wed, 21 Oct 2015 07:28:00 GMT'' = None"
  by (simp add: py_int_def strip_def is_space_def is_digit_def digits_within_limit_def
        max_str_digits_def)

lemma py_int_120: "py_int ''120'' = Some 120"
  by (simp add: py_int_def strip_def is_space_def is_digit_def digit_val_def
        digits_within_limit_def max_str_digits_def)

lemma digits_beyond_limit:
  assumes "4300 < length (filter is_digit cs)"
  shows "digits_within_limit cs = None"
  using assms by (simp add: digits_within_limit_def max_str_digits_def)

text \<open>The separators 28 to 31 are not white space for \<open>int\<close>.\<close>

lemma py_int_separator: "py_int [CHR ''5'', CHR 0x1C] = None"
  by (simp add: py_int_def strip_def is_space_def is_digit_def digits_within_limit_def
        max_str_digits_def)

text \<open>
  Claim C7. The claim gives the error of the status table to every failure. A 429 whose
  \<open>Retry-After\<close> header is a date is a failure the server may send; on it \<open>int(retry_after)\<close>
  raises \<open>ValueError\<close>, and no \<open>RateLimitError\<close> is raised.
\<close>

theorem handle_response_dated_429:
  "handle_response dated_429 = Inl ValueError"
  by (simp add: handle_response_def dated_429_def is_success_def dict_get_def py_int_date)

subsection \<open>What a request raises\<close>

lemma request_result:
  "fst (request t c m p j w) =
     (case send t w (Request m p j) of
        Response r \<Rightarrow> handle_response r
      | Raises (ConnectError e) \<Rightarrow> Inl (Classified (ConnectionError e))
      | Raises TimeoutException \<Rightarrow> Inl (Classified (TimeoutError (timeout_ms c)))
      | Raises (OtherTransportError e) \<Rightarrow> Inl (Httpx (OtherTransportError e)))"
  by (simp add: request_def perform_def split: transport_result.splits httpx_error.splits)

lemma request_world:
  "snd (request t c m p j w) =
     w\<lparr>trace := trace w @ [Request m p j], now := now w + took t w (Request m p j)\<rparr>"
  by (simp add: request_def perform_def split: transport_result.splits httpx_error.splits)

text \<open>
  \<open>_request\<close> alone, on the outcomes of the transport that it handles: a connect error, a
  timeout, or a response that \<open>_handle_response\<close> can read. It then returns the decoded
  body or raises one error of the taxonomy. This says nothing of what the callers of
  \<open>_request\<close> do with the body.
\<close>

lemma request_classifies:
  assumes "handled (send t w (Request m p j))"
  shows "classified_outcome (fst (request t c m p j w))"
  using assms
  by (auto simp: request_result handled_def classified_outcome_def
           dest: handle_response_classified
           split: transport_result.splits httpx_error.splits)

text \<open>
  \<open>_request\<close> has handlers for \<open>httpx.ConnectError\<close> and \<open>httpx.TimeoutException\<close> only:
  when the connection breaks while the response is read, its caller gets the exception of
  the transport.
\<close>

lemma request_passes_read_error:
  "fst (request broken_server sample_client ''GET'' ''/flows'' None w0) =
     Inl (Httpx (OtherTransportError ''ReadError''))"
  by (simp add: request_result broken_server_def)

text \<open>
  Claim C8. The claim is that no public operation lets an exception of the transport
  reach the caller. \<open>ExecutionsAPI.stream\<close> is a public operation. When the server cannot
  be reached, the consumer of the stream gets \<open>httpx.ConnectError\<close> as the transport
  raised it, and no event; \<open>_request\<close>, on the same failure of the same server, raises
  the \<open>ConnectionError\<close> of the taxonomy.
\<close>

theorem stream_raw_connect_error:
  "fst (stream sample_lib unreachable_server sample_client (JStr ''exec-1'') 0 w0) =
     \<lparr>yielded = [], lines_read = 0,
      raised = Some (Httpx (ConnectError ''All connection attempts failed''))\<rparr> \<and>
   \<not> classified_outcome
        (Inl (Httpx (ConnectError ''All connection attempts failed'')) :: exn + unit) \<and>
   fst (request unreachable_server sample_client ''GET'' ''/executions/exec-1'' None w0) =
     Inl (Classified (ConnectionError ''All connection attempts failed''))"
  by (simp add: stream_def perform_def Let_def unreachable_server_def request_result
        classified_outcome_def)

section \<open>Polling: properties\<close>

subsection \<open>One poll\<close>

lemma get_world:
  "snd (get l t c eid w) =
     w\<lparr>trace := trace w @ [status_request l eid], now := now w + took t w (status_request l eid)\<rparr>"
proof -
  have "snd (get l t c eid w) = snd (request t c ''GET'' (''/executions/'' @ fstr l eid) None w)"
    by (simp add: get_def split: prod.splits sum.splits)
  then show ?thesis by (simp add: request_world status_request_def)
qed

lemma get_world':
  assumes "get l t c eid w = (r, w')"
  shows "w' = w\<lparr>trace := trace w @ [status_request l eid],
                 now := now w + took t w (status_request l eid)\<rparr>"
  using get_world [of l t c eid w] assms by simp

subsection \<open>The loop\<close>

lemma wait_loop_expired:
  assumes "\<not> int (now w) - int start < T * 1000"
  shows "wait_loop l t c eid T start w = (Inl (Classified (TimeoutError (T * 1000))), w)"
  using assms by simp

lemma wait_loop_returns:
  assumes "int (now w) - int start < T * 1000"
      and "get l t c eid w = (Inr ex, w')" and "is_terminal ex"
  shows "wait_loop l t c eid T start w = (Inr ex, w')"
  using assms by simp

lemma wait_loop_fails:
  assumes "int (now w) - int start < T * 1000"
      and "get l t c eid w = (Inl e, w')"
  shows "wait_loop l t c eid T start w = (Inl e, w')"
  using assms by simp

lemma wait_loop_sleeps:
  assumes "int (now w) - int start < T * 1000"
      and "get l t c eid w = (Inr ex, w')" and "\<not> is_terminal ex"
  shows "wait_loop l t c eid T start w = wait_loop l t c eid T start (sleep t 1000 w')"
  using assms by simp



text \<open>
  When no snapshot is terminal, the loop ends with the timeout error, not before the
  deadline, and less than one interval, one request and one overrun after it.
\<close>

lemma wait_loop_times_out:
  assumes "\<forall>w. \<exists>ex w'. get l t c eid w = (Inr ex, w') \<and> \<not> is_terminal ex"
      and "\<forall>w e. took t w e \<le> L"
      and "\<forall>w. overrun t w \<le> V"
      and "int (now w) - int start < T * 1000 + 1000 + int L + int V"
  shows "\<exists>w'. wait_loop l t c eid T start w = (Inl (Classified (TimeoutError (T * 1000))), w') \<and>
              T * 1000 \<le> int (now w') - int start \<and>
              int (now w') - int start < T * 1000 + 1000 + int L + int V"
  using assms
proof (induction l t c eid T start w rule: wait_loop.induct)
  case (1 l t c eid T start w)
  note never = "1.prems"(1) and lat = "1.prems"(2) and ovr = "1.prems"(3) and inv = "1.prems"(4)
  show ?case
  proof (cases "int (now w) - int start < T * 1000")
    case False
    with inv show ?thesis by simp
  next
    case True
    from never obtain ex w1 where g: "get l t c eid w = (Inr ex, w1)" and nt: "\<not> is_terminal ex"
      by blast
    have w1: "now w1 = now w + took t w (status_request l eid)"
      using get_world' [OF g] by simp
    let ?w2 = "sleep t 1000 w1"
    have w2: "now ?w2 = now w1 + 1000 + overrun t w1" by (simp add: sleep_def)
    have "took t w (status_request l eid) \<le> L" and "overrun t w1 \<le> V"
      using lat ovr by blast+
    with True w1 w2 have "int (now ?w2) - int start < T * 1000 + 1000 + int L + int V"
      by simp
    from "1.IH" [OF True g [symmetric] refl nt never lat ovr this]
    show ?thesis using True g nt by simp
  qed
qed

text \<open>The trace only grows during a wait.\<close>

lemma wait_loop_trace_grows:
  "length (trace w) \<le> length (trace (snd (wait_loop l t c eid T start w)))"
proof (induction l t c eid T start w rule: wait_loop.induct)
  case (1 l t c eid T start w)
  show ?case
  proof (cases "int (now w) - int start < T * 1000")
    case False
    then show ?thesis by simp
  next
    case True
    obtain r w1 where g: "get l t c eid w = (r, w1)" by (cases "get l t c eid w")
    have w1: "length (trace w1) = Suc (length (trace w))"
      using get_world' [OF g] by simp
    show ?thesis
    proof (cases r)
      case (Inl e)
      with True g w1 show ?thesis by simp
    next
      case (Inr x)
      show ?thesis
      proof (cases "is_terminal x")
        case True
        with \<open>int (now w) - int start < T * 1000\<close> g Inr w1 show ?thesis by simp
      next
        case False
        from "1.IH" [OF True g [symmetric] Inr False]
        have "length (trace (sleep t 1000 w1))
                \<le> length (trace (snd (wait_loop l t c eid T start (sleep t 1000 w1))))" .
        with True g Inr False w1 show ?thesis by (simp add: sleep_def)
      qed
    qed
  qed
qed

text \<open>
  A wait makes a first poll exactly when its timeout is positive: with a timeout that is not
  positive it leaves the world as it was, and otherwise the trace has grown.
\<close>

lemma wait_polls_iff_positive:
  "(trace (snd (wait_for_completion l t c eid T w)) \<noteq> trace w) = (0 < T)"
proof (cases "0 < T")
  case False
  then show ?thesis by (simp add: wait_for_completion_def)
next
  case True
  obtain r w1 where g: "get l t c eid w = (r, w1)" by (cases "get l t c eid w")
  have w1: "length (trace w1) = Suc (length (trace w))"
    using get_world' [OF g] by simp
  have "length (trace w) < length (trace (snd (wait_for_completion l t c eid T w)))"
  proof (cases r)
    case (Inl e)
    with True g w1 show ?thesis by (simp add: wait_for_completion_def)
  next
    case (Inr x)
    show ?thesis
    proof (cases "is_terminal x")
      case True
      with \<open>0 < T\<close> g Inr w1 show ?thesis by (simp add: wait_for_completion_def)
    next
      case False
      have "length (trace (sleep t 1000 w1))
              \<le> length (trace (snd (wait_loop l t c eid T (now w) (sleep t 1000 w1))))"
        by (rule wait_loop_trace_grows)
      with True g Inr False w1 show ?thesis
        by (simp add: wait_for_completion_def sleep_def)
    qed
  qed
  with True show ?thesis by auto
qed

subsection \<open>The deadline\<close>

text \<open>
  Claim C4, as the code has it. The timeout \<open>T\<close> is not negative, no polled snapshot is
  terminal, a request takes at most \<open>L\<close> milliseconds and a sleep overruns by at most \<open>V\<close>.
  Then the wait raises \<open>TimeoutError\<close> with \<open>T * 1000\<close> as its duration; the time that has
  passed is at least \<open>T\<close> seconds, and less than \<open>T\<close> seconds plus one poll interval plus
  \<open>L\<close> plus \<open>V\<close>. With requests and sleeps that take no extra time, \<open>L = V = 0\<close>, this is
  the bound of the claim.
\<close>

theorem wait_for_completion_times_out:
  assumes "0 \<le> T"
      and "\<forall>w. \<exists>ex w'. get l t c eid w = (Inr ex, w') \<and> \<not> is_terminal ex"
      and "\<forall>w e. took t w e \<le> L"
      and "\<forall>w. overrun t w \<le> V"
  shows "\<exists>w'. wait_for_completion l t c eid T w =
                 (Inl (Classified (TimeoutError (T * 1000))), w') \<and>
              T * 1000 \<le> int (now w') - int (now w) \<and>
              int (now w') - int (now w) < T * 1000 + 1000 + int L + int V"
  unfolding wait_for_completion_def
  using assms(1) by (intro wait_loop_times_out [OF assms(2,3,4)]) simp

subsection \<open>An execution that is already terminal\<close>

text \<open>
  Claim C5. A first poll is made exactly when the timeout is positive. When the snapshot
  it returns is terminal, the wait returns that snapshot in the world the poll left: the
  trace has grown by the one status request and by no sleep, and the clock by the time of
  that request.
\<close>

theorem wait_for_completion_first_poll:
  assumes "0 < T"
      and "get l t c eid w = (Inr ex, w')"
      and "is_terminal ex"
  shows "wait_for_completion l t c eid T w = (Inr ex, w') \<and>
         trace w' = trace w @ [status_request l eid] \<and>
         now w' = now w + took t w (status_request l eid)"
  using assms get_world' [OF assms(2)]
  by (simp add: wait_for_completion_def)

text \<open>With a timeout that is not positive no poll is made at all.\<close>

lemma wait_for_completion_no_time:
  assumes "T \<le> 0"
  shows "wait_for_completion l t c eid T w = (Inl (Classified (TimeoutError (T * 1000))), w)"
  using assms by (simp add: wait_for_completion_def)

subsection \<open>Runs on the sample server\<close>


lemma get_sample_running:
  "get sample_lib (api_server lat ''running'') sample_client (JStr ''exec-1'') w =
     (Inr (sample_execution RUNNING),
      w\<lparr>trace := trace w @ [Request ''GET'' ''/executions/exec-1'' None], now := now w + lat\<rparr>)"
  by (simp add: get_def request_def perform_def api_server_def fstr_def ok_response_def
        handle_response_def is_success_def dict_get_def snapshot_json_def new_Execution_def
        has_key_def sample_lib_def sample_validate_execution_def status_of_def
        sample_execution_def)

lemma get_sample_completed:
  "get sample_lib (api_server lat ''completed'') sample_client (JStr ''exec-1'') w =
     (Inr (sample_execution COMPLETED),
      w\<lparr>trace := trace w @ [Request ''GET'' ''/executions/exec-1'' None], now := now w + lat\<rparr>)"
  by (simp add: get_def request_def perform_def api_server_def fstr_def ok_response_def
        handle_response_def is_success_def dict_get_def snapshot_json_def new_Execution_def
        has_key_def sample_lib_def sample_validate_execution_def status_of_def
        sample_execution_def)

lemma sample_terminal:
  "\<not> is_terminal (sample_execution RUNNING)" "is_terminal (sample_execution COMPLETED)"
  by (simp_all add: is_terminal_def sample_execution_def)

lemma api_server_times:
  "took (api_server lat st) w e = lat" "overrun (api_server lat st) w = 0"
  by (simp_all add: api_server_def)

theorem wait_for_completion_times_out_witness:
  "\<exists>w'. wait_for_completion sample_lib (api_server 250 ''running'') sample_client
           (JStr ''exec-1'') 2 w0 = (Inl (Classified (TimeoutError 2000)), w') \<and>
        2000 \<le> int (now w') - int (now w0) \<and>
        int (now w') - int (now w0) < 3250"
proof -
  have 1: "(0::int) \<le> 2" by simp
  have 2: "\<forall>w. \<exists>ex w'. get sample_lib (api_server 250 ''running'') sample_client
                          (JStr ''exec-1'') w = (Inr ex, w') \<and> \<not> is_terminal ex"
    by (simp add: get_sample_running sample_terminal)
  have 3: "\<forall>w e. took (api_server 250 ''running'') w e \<le> 250"
    by (simp add: api_server_times)
  have 4: "\<forall>w. overrun (api_server 250 ''running'') w \<le> 0"
    by (simp add: api_server_times)
  show ?thesis
    using wait_for_completion_times_out [OF 1 2 3 4, of w0] by simp
qed

text \<open>
  Claim C4, as stated, fails. With a timeout of one second and status requests that take
  five seconds each, the wait polls once, sleeps, and raises after six seconds, which is
  not less than the timeout plus one poll interval. With a timeout of minus two seconds
  the wait raises at once, and no time is not less than minus one second.
\<close>

theorem wait_for_completion_late:
  "fst (wait_for_completion sample_lib (api_server 5000 ''running'') sample_client
          (JStr ''exec-1'') 1 w0) = Inl (Classified (TimeoutError 1000)) \<and>
   \<not> (int (now (snd (wait_for_completion sample_lib (api_server 5000 ''running'') sample_client
                       (JStr ''exec-1'') 1 w0))) - int (now w0) < 1 * 1000 + 1000) \<and>
   \<not> (int (now (snd (wait_for_completion sample_lib (api_server 0 ''running'') sample_client
                       (JStr ''exec-1'') (- 2) w0))) - int (now w0) < (- 2) * 1000 + 1000)"
  by (simp add: wait_for_completion_def get_sample_running sample_terminal sleep_def w0_def
        api_server_times)

theorem wait_for_completion_first_poll_witness:
  "wait_for_completion sample_lib (api_server 40 ''completed'') sample_client
     (JStr ''exec-1'') 300 w0 =
     (Inr (sample_execution COMPLETED),
      \<lparr>trace = [Request ''GET'' ''/executions/exec-1'' None], now = 40\<rparr>)"
proof -
  have 1: "(0::int) < 300" by simp
  have 2: "get sample_lib (api_server 40 ''completed'') sample_client (JStr ''exec-1'') w0 =
             (Inr (sample_execution COMPLETED),
              \<lparr>trace = [Request ''GET'' ''/executions/exec-1'' None], now = 40\<rparr>)"
    by (simp add: get_sample_completed w0_def)
  show ?thesis
    using wait_for_completion_first_poll [OF 1 2 sample_terminal(2)] by simp
qed

section \<open>The handle: properties\<close>

subsection \<open>What \<open>execute\<close> and \<open>run\<close> return\<close>

lemma execute_unfold:
  "execute l t c fid inp wait wt w =
     (case request t c ''POST'' (''/flows/'' @ fid @ ''/execute'')
             (Some (JObj [(''input'', dict_or_empty inp)])) w of
        (Inl e, w1) \<Rightarrow> (Inl e, w1)
      | (Inr resp, w1) \<Rightarrow>
          (case subscript resp ''executionId'' of
             Inl e \<Rightarrow> (Inl e, w1)
           | Inr eid \<Rightarrow>
               if wait then
                 (case handle_wait (new_handle l t c eid wt) (Some wt) w1 of
                    (Inl e, w2) \<Rightarrow> (Inl e, w2)
                  | (Inr ex, w2) \<Rightarrow> (Inr (new_handle l t c eid wt), w2))
               else (Inr (new_handle l t c eid wt), w1)))"
  unfolding execute_def new_handle_def Let_def by (rule refl)

lemma run_unfold:
  "run l t c bid inp wait wt w =
     (case request t c ''POST'' (''/blocks/'' @ bid @ ''/run'')
             (Some (JObj [(''input'', dict_or_empty inp)])) w of
        (Inl e, w1) \<Rightarrow> (Inl e, w1)
      | (Inr resp, w1) \<Rightarrow>
          (case subscript resp ''executionId'' of
             Inl e \<Rightarrow> (Inl e, w1)
           | Inr eid \<Rightarrow>
               if wait then
                 (case handle_wait (new_handle l t c eid wt) (Some wt) w1 of
                    (Inl e, w2) \<Rightarrow> (Inl e, w2)
                  | (Inr ex, w2) \<Rightarrow> (Inr (new_handle l t c eid wt), w2))
               else (Inr (new_handle l t c eid wt), w1)))"
  unfolding run_def new_handle_def Let_def by (rule refl)

lemma execute_returns_new_handle:
  assumes "execute l t c fid inp wait wt w = (Inr h, w1)"
  shows "\<exists>eid. h = new_handle l t c eid wt"
  using assms unfolding execute_unfold
  by (auto split: prod.splits sum.splits if_splits)

lemma run_returns_new_handle:
  assumes "run l t c bid inp wait wt w = (Inr h, w1)"
  shows "\<exists>eid. h = new_handle l t c eid wt"
  using assms unfolding run_unfold
  by (auto split: prod.splits sum.splits if_splits)

lemma request_started:
  assumes "send t w (Request m p j) = Response r" and "is_success r"
      and "json_body r = Inr (JObj kv)"
  shows "request t c m p j w =
           (Inr (JObj kv), w\<lparr>trace := trace w @ [Request m p j],
                             now := now w + took t w (Request m p j)\<rparr>)"
  using assms by (simp add: request_def perform_def handle_response_def)

lemma new_handle_simps:
  "handle_id (new_handle l t c eid wt) = eid"
  "handle_get_status (new_handle l t c eid wt) = get l t c eid"
  "handle_wait (new_handle l t c eid wt) tm = wait_for_completion l t c eid (int_or tm wt)"
  "handle_stream (new_handle l t c eid wt) = stream l t c eid 0"
  by (simp_all add: new_handle_def handle_get_status_def handle_wait_def handle_stream_def)


text \<open>
  What both calls do on a successful response whose body is a dictionary with the key
  \<open>executionId\<close>.
\<close>

lemma started:
  assumes "(start, req) = (execute l t c fid inp, execute_request fid inp) \<or>
           (start, req) = (run l t c bid inp, run_request bid inp)"
      and "send t w req = Response r" and "is_success r"
      and "json_body r = Inr (JObj kv)" and "map_of kv ''executionId'' = Some eid"
  shows "start wait wt w =
           (let w1 = w\<lparr>trace := trace w @ [req], now := now w + took t w req\<rparr> in
            if wait then
              (case handle_wait (new_handle l t c eid wt) (Some wt) w1 of
                 (Inl e, w2) \<Rightarrow> (Inl e, w2)
               | (Inr ex, w2) \<Rightarrow> (Inr (new_handle l t c eid wt), w2))
            else (Inr (new_handle l t c eid wt), w1))"
  using assms(1)
proof
  assume "(start, req) = (execute l t c fid inp, execute_request fid inp)"
  then have s: "start = execute l t c fid inp" and r: "req = execute_request fid inp" by simp_all
  from assms(2-4) r show ?thesis
    unfolding s execute_unfold
    by (simp add: execute_request_def request_started subscript_def assms(5) Let_def)
next
  assume "(start, req) = (run l t c bid inp, run_request bid inp)"
  then have s: "start = run l t c bid inp" and r: "req = run_request bid inp" by simp_all
  from assms(2-4) r show ?thesis
    unfolding s run_unfold
    by (simp add: run_request_def request_started subscript_def assms(5) Let_def)
qed

subsection \<open>The handle of a started execution\<close>


subsection \<open>The timeout of a wait through the handle\<close>

text \<open>
  Claim C10. \<open>h\<close> is a handle that \<open>execute\<close> or \<open>run\<close> has returned, called with the wait
  timeout \<open>wt\<close>. In any world, its wait with \<open>None\<close> and its wait with \<open>0\<close> are
  \<open>wait_for_completion\<close> on the id of \<open>h\<close> with timeout \<open>wt\<close>; any other timeout is passed
  on as it is. So unless \<open>wt\<close> itself is zero, no argument makes the handle wait with a
  timeout of zero.
\<close>

theorem handle_wait_falls_back:
  assumes "execute l t c fid inp wait wt w = (Inr h, w1) \<or>
           run l t c bid inp wait wt w = (Inr h, w1)"
  shows "handle_wait h None w2 = wait_for_completion l t c (handle_id h) wt w2 \<and>
         handle_wait h (Some 0) w2 = wait_for_completion l t c (handle_id h) wt w2 \<and>
         (\<forall>n. n \<noteq> 0 \<longrightarrow>
               handle_wait h (Some n) w2 = wait_for_completion l t c (handle_id h) n w2) \<and>
         (wt \<noteq> 0 \<longrightarrow>
           (\<forall>tm. \<exists>T. T \<noteq> 0 \<and>
                  handle_wait h tm w2 = wait_for_completion l t c (handle_id h) T w2))"
proof -
  from assms obtain eid where h: "h = new_handle l t c eid wt"
    by (auto dest: execute_returns_new_handle run_returns_new_handle)
  have "wt \<noteq> 0 \<Longrightarrow> int_or tm wt \<noteq> 0" for tm
    by (simp add: int_or_def split: option.splits)
  then show ?thesis
    unfolding h by (auto simp: new_handle_simps int_or_def)
qed

subsection \<open>The scenario of the specification\<close>

lemma api_server_post:
  "send (api_server lat st) w (execute_request fid inp) =
     Response (ok_response (Inr (JObj [(''executionId'', JStr ''exec-1'')])) [])"
  by (simp add: api_server_def execute_request_def)


lemma wait_sample_completed:
  "wait_for_completion sample_lib (api_server lat ''completed'') sample_client
     (JStr ''exec-1'') 300 w =
     (Inr (sample_execution COMPLETED),
      w\<lparr>trace := trace w @ [Request ''GET'' ''/executions/exec-1'' None], now := now w + lat\<rparr>)"
  by (simp add: wait_for_completion_def get_sample_completed sample_terminal)

text \<open>
  The run behind the scenario with waiting: the call posts, polls once, finds the execution
  completed and returns the handle; nothing was slept.
\<close>

lemma execute_and_wait_sample:
  "execute sample_lib (api_server 40 ''completed'') sample_client ''flow-1''
     (Some [(''message'', JStr ''hi'')]) True 300 w0 =
     (Inr (new_handle sample_lib (api_server 40 ''completed'') sample_client (JStr ''exec-1'') 300),
      \<lparr>trace = [Request ''POST'' ''/flows/flow-1/execute''
                  (Some (JObj [(''input'', JObj [(''message'', JStr ''hi'')])])),
                Request ''GET'' ''/executions/exec-1'' None],
       now = 80\<rparr>)"
proof -
  let ?t = "api_server 40 ''completed''"
  let ?inp = "Some [(''message'', JStr ''hi'')]"
  let ?r = "ok_response (Inr (JObj [(''executionId'', JStr ''exec-1'')])) []"
  have 1: "(execute sample_lib ?t sample_client ''flow-1'' ?inp, execute_request ''flow-1'' ?inp) =
             (execute sample_lib ?t sample_client ''flow-1'' ?inp, execute_request ''flow-1'' ?inp) \<or>
           (execute sample_lib ?t sample_client ''flow-1'' ?inp, execute_request ''flow-1'' ?inp) =
             (run sample_lib ?t sample_client ''block-1'' ?inp, run_request ''block-1'' ?inp)"
    by simp
  have 2: "send ?t w0 (execute_request ''flow-1'' ?inp) = Response ?r"
    by (rule api_server_post)
  have 5: "map_of [(''executionId'', JStr ''exec-1'')] ''executionId'' = Some (JStr ''exec-1'')"
    by simp
  show ?thesis
    using started [OF 1 2 ok_response_simps(1) ok_response_simps(3) 5, of True 300]
    by (simp add: Let_def new_handle_simps int_or_def wait_sample_completed w0_def
          api_server_times execute_request_def dict_or_empty_def)
qed

theorem handle_wait_falls_back_witness:
  "handle_wait (new_handle sample_lib (api_server 40 ''completed'') sample_client
                  (JStr ''exec-1'') 300) None w0 =
     wait_for_completion sample_lib (api_server 40 ''completed'') sample_client
       (JStr ''exec-1'') 300 w0 \<and>
   handle_wait (new_handle sample_lib (api_server 40 ''completed'') sample_client
                  (JStr ''exec-1'') 300) (Some 0) w0 =
     wait_for_completion sample_lib (api_server 40 ''completed'') sample_client
       (JStr ''exec-1'') 300 w0 \<and>
   handle_wait (new_handle sample_lib (api_server 40 ''completed'') sample_client
                  (JStr ''exec-1'') 300) (Some 5) w0 =
     wait_for_completion sample_lib (api_server 40 ''completed'') sample_client
       (JStr ''exec-1'') 5 w0"
proof -
  let ?t = "api_server 40 ''completed''"
  let ?h = "new_handle sample_lib ?t sample_client (JStr ''exec-1'') 300"
  let ?inp = "Some [(''message'', JStr ''hi'')]"
  have 1: "execute sample_lib ?t sample_client ''flow-1'' ?inp True 300 w0 =
             (Inr ?h, \<lparr>trace = [Request ''POST'' ''/flows/flow-1/execute''
                                  (Some (JObj [(''input'', JObj [(''message'', JStr ''hi'')])])),
                                Request ''GET'' ''/executions/exec-1'' None],
                       now = 80\<rparr>) \<or>
           run sample_lib ?t sample_client ''block-1'' ?inp True 300 w0 =
             (Inr ?h, \<lparr>trace = [Request ''POST'' ''/flows/flow-1/execute''
                                  (Some (JObj [(''input'', JObj [(''message'', JStr ''hi'')])])),
                                Request ''GET'' ''/executions/exec-1'' None],
                       now = 80\<rparr>)"
    by (rule disjI1) (rule execute_and_wait_sample)
  note th = handle_wait_falls_back [OF 1, of w0, unfolded new_handle_simps(1)]
  from th have a: "handle_wait ?h None w0 =
      wait_for_completion sample_lib ?t sample_client (JStr ''exec-1'') 300 w0"
    by (rule conjunct1)
  from th have b: "handle_wait ?h (Some 0) w0 =
      wait_for_completion sample_lib ?t sample_client (JStr ''exec-1'') 300 w0"
    by (elim conjE)
  from th have "\<forall>n. n \<noteq> 0 \<longrightarrow> handle_wait ?h (Some n) w0 =
      wait_for_completion sample_lib ?t sample_client (JStr ''exec-1'') n w0"
    by (elim conjE)
  then have "(5::int) \<noteq> 0 \<longrightarrow> handle_wait ?h (Some 5) w0 =
      wait_for_completion sample_lib ?t sample_client (JStr ''exec-1'') 5 w0"
    by (rule spec)
  then have c: "handle_wait ?h (Some 5) w0 =
      wait_for_completion sample_lib ?t sample_client (JStr ''exec-1'') 5 w0"
    by (rule mp) simp
  from a b c show ?thesis by (intro conjI)
qed

end
